theory Spec2Isabelle
  imports Main
begin

section \<open>The build script of py\_mini\_racer (setup.py)\<close>

text \<open>
  The script is process-invocation glue: it names the engine library per platform, names
  the extension module, runs the vendored V8 build when it is needed and copies the
  result. Everything it reads from its surroundings (the platform, the file system, the
  subprocesses it starts, the helpers of \<^verbatim>\<open>py_mini_racer.extension.v8_build\<close>) is a
  field of an environment record; what it does to its surroundings is a trace of actions.
\<close>

subsection \<open>Python values the script handles\<close>

text \<open>
  A raised Python exception: whether it is an instance of \<^verbatim>\<open>Exception\<close> (what
  \<^verbatim>\<open>except Exception\<close> catches; \<^verbatim>\<open>KeyboardInterrupt\<close> and \<^verbatim>\<open>SystemExit\<close> are
  not), its class name and its message.
\<close>

datatype exn = PyExc (is_Exception: bool) (exn_class: string) (exn_msg: string)

text \<open>What the script does to the outside world, in the order it does it.\<close>

datatype action =
    Print string
  | PrintExc exn
  | CheckOutput "string list"
  | CheckCall "string list"
  | BuildV8 "string option"
  | CopyFile string string

text \<open>An effectful computation: the value returned or the exception raised, and the trace.\<close>

type_synonym 'a m = "(exn + 'a) \<times> action list"

definition return_m :: "'a \<Rightarrow> 'a m" where
  "return_m a = (Inr a, [])"

definition raise_m :: "exn \<Rightarrow> 'a m" where
  "raise_m x = (Inl x, [])"

definition bind_m :: "'a m \<Rightarrow> ('a \<Rightarrow> 'b m) \<Rightarrow> 'b m" where
  "bind_m c f =
     (case c of
        (Inl x, t) \<Rightarrow> (Inl x, t)
      | (Inr a, t) \<Rightarrow> (case f a of (r, t') \<Rightarrow> (r, t @ t')))"

definition print_m :: "string \<Rightarrow> unit m" where
  "print_m s = (Inr (), [Print s])"

subsection \<open>The environment\<close>

text \<open>
  \<open>os_name\<close> is \<^verbatim>\<open>os.name\<close>, \<open>sys_platform\<close> is \<^verbatim>\<open>sys.platform\<close>, and
  \<open>os_path_join a p\<close> is \<^verbatim>\<open>os.path.join(a, *p)\<close> of the running platform.
\<close>

record platform =
  os_name :: string
  sys_platform :: string
  os_path_join :: "string \<Rightarrow> string list \<Rightarrow> string"

subsection \<open>MiniRacerBuildExt.get\_filename\<close>

text \<open>
  \<^verbatim>\<open>
  def get_filename(self):
      if os.name == "posix" and sys.platform == "darwin":
          prefix, ext = "lib", ".dylib"
      elif sys.platform == "win32":
          prefix, ext = "", ".dll"
      else:
          prefix, ext = "lib", ".so"
      return prefix + "mini_racer" + ext
  \<close>
\<close>

definition get_filename :: "('a platform_scheme) \<Rightarrow> string" where
  "get_filename P =
     (let (prefix, ext) =
        (if os_name P = ''posix'' \<and> sys_platform P = ''darwin'' then (''lib'', ''.dylib'')
         else if sys_platform P = ''win32'' then ('''', ''.dll'')
         else (''lib'', ''.so''))
      in prefix @ ''mini_racer'' @ ext)"

subsection \<open>Python string operations the script uses\<close>

text \<open>
  \<open>split_on c s\<close> is \<^verbatim>\<open>s.split(c)\<close> for a one-character separator: the pieces between
  the separators, in order, empty pieces kept; never the empty list. The scan keeps the
  piece it is reading in \<open>cur\<close> and closes it at each separator and at the end.
\<close>

fun split_from :: "char \<Rightarrow> string \<Rightarrow> string \<Rightarrow> string list" where
  "split_from c cur [] = [cur]"
| "split_from c cur (x # xs) =
     (if x = c then cur # split_from c [] xs else split_from c (cur @ [x]) xs)"

definition split_on :: "char \<Rightarrow> string \<Rightarrow> string list" where
  "split_on c s = split_from c [] s"

text \<open>\<open>str_join sep xs\<close> is \<^verbatim>\<open>sep.join(xs)\<close>.\<close>

fun str_join :: "string \<Rightarrow> string list \<Rightarrow> string" where
  "str_join sep [] = []"
| "str_join sep [x] = x"
| "str_join sep (x # y # ys) = x @ sep @ str_join sep (y # ys)"

definition startswith :: "string \<Rightarrow> string \<Rightarrow> bool" where
  "startswith s p = (take (length p) s = p)"

definition endswith :: "string \<Rightarrow> string \<Rightarrow> bool" where
  "endswith s p = (length p \<le> length s \<and> drop (length s - length p) s = p)"

text \<open>The bytes \<^verbatim>\<open>strip()\<close> removes: space, tab, newline, return, vertical tab, form feed.\<close>

definition is_space :: "char \<Rightarrow> bool" where
  "is_space c = (c \<in> set [CHR '' '', CHR 0x09, CHR 0x0A, CHR 0x0D, CHR 0x0B, CHR 0x0C])"

definition strip :: "string \<Rightarrow> string" where
  "strip s = rev (dropWhile is_space (rev (dropWhile is_space s)))"

text \<open>
  \<open>format_s fmt a\<close> is \<^verbatim>\<open>fmt % a\<close> for a string argument and a format whose only
  conversion is one \<^verbatim>\<open>%s\<close>: the argument replaces it.
\<close>

fun format_s :: "string \<Rightarrow> string \<Rightarrow> string" where
  "format_s (c # d # cs) a =
     (if c = CHR ''%'' \<and> d = CHR ''s'' then a @ cs else c # format_s (d # cs) a)"
| "format_s cs a = cs"

text \<open>
  \<^verbatim>\<open>posixpath.join(a, *p)\<close>, the \<^verbatim>\<open>os.path.join\<close> of a posix platform:
  \<^verbatim>\<open>
  path = a
  for b in p:
      if b.startswith(sep):              path = b
      elif not path or path.endswith(sep): path += b
      else:                                path += sep + b
  return path
  \<close>
\<close>

definition posixpath_join_step :: "string \<Rightarrow> string \<Rightarrow> string" where
  "posixpath_join_step b path =
     (if startswith b ''/'' then b
      else if path = [] \<or> endswith path ''/'' then path @ b
      else path @ ''/'' @ b)"

definition posixpath_join :: "string \<Rightarrow> string list \<Rightarrow> string" where
  "posixpath_join a p = fold posixpath_join_step p a"

text \<open>\<^verbatim>\<open>os.path.join(*xs)\<close> for a non-empty list of components.\<close>

definition os_path_join_star :: "('a platform_scheme) \<Rightarrow> string list \<Rightarrow> string" where
  "os_path_join_star P xs = os_path_join P (hd xs) (tl xs)"

subsection \<open>MiniRacerBuildExt.get\_ext\_filename\<close>

text \<open>
  \<^verbatim>\<open>
  def get_ext_filename(self, name):
      ext = ".so"
      parts = name.split(".")
      last = parts.pop(-1) + ext
      return os.path.join(*(parts + [last]))
  \<close>
  \<^verbatim>\<open>split\<close> never returns the empty list, so \<^verbatim>\<open>pop(-1)\<close> does not raise: it
  returns the last part and leaves the others.
\<close>

definition get_ext_filename :: "('a platform_scheme) \<Rightarrow> string \<Rightarrow> string" where
  "get_ext_filename P name =
     (let ext = ''.so'';
          parts = split_on CHR ''.'' name;
          lst = last parts @ ext;
          parts = butlast parts
      in os_path_join_star P (parts @ [lst]))"

subsection \<open>The rest of the environment\<close>

text \<open>
  What the script reads from outside itself:
  \<^item> \<open>file_dir\<close> is \<^verbatim>\<open>dirname(__file__)\<close>; \<open>abspath\<close>, \<open>isfile\<close>, \<open>isdir\<close> are those
    of \<^verbatim>\<open>os.path\<close> on the file system of the run;
  \<^item> \<open>local_path_v8\<close> and \<open>build_v8\<close> are the helpers imported from
    \<^verbatim>\<open>py_mini_racer.extension.v8_build\<close>;
  \<^item> \<open>check_output\<close> and \<open>check_call\<close> are those of \<^verbatim>\<open>subprocess\<close>: the output of
    the process (its exit, for \<open>check_call\<close>), or the exception raised;
  \<^item> \<open>decode\<close> is \<^verbatim>\<open>bytes.decode()\<close>, which raises on bytes the codec rejects;
  \<^item> \<open>copy_file\<close> is that of \<^verbatim>\<open>distutils.file_util\<close>, \<open>build_lib\<close> the attribute
    \<^verbatim>\<open>self.build_lib\<close> of the build command, \<open>repr\<close> Python's \<^verbatim>\<open>repr\<close> on exceptions.
\<close>

record env = platform +
  file_dir :: string
  abspath :: "string \<Rightarrow> string"
  isfile :: "string \<Rightarrow> bool"
  isdir :: "string \<Rightarrow> bool"
  local_path_v8 :: "string \<Rightarrow> string"
  check_output :: "string list \<Rightarrow> exn + string"
  decode :: "string \<Rightarrow> exn + string"
  check_call :: "string list \<Rightarrow> exn + unit"
  build_v8 :: "string option \<Rightarrow> exn + unit"
  copy_file :: "string \<Rightarrow> string \<Rightarrow> exn + unit"
  build_lib :: string
  repr :: "exn \<Rightarrow> string"

text \<open>The calls that act on the outside world leave their mark in the trace.\<close>

definition check_output_m :: "env \<Rightarrow> string list \<Rightarrow> string m" where
  "check_output_m e args = (check_output e args, [CheckOutput args])"

definition check_call_m :: "env \<Rightarrow> string list \<Rightarrow> unit m" where
  "check_call_m e args = (check_call e args, [CheckCall args])"

definition build_v8_m :: "env \<Rightarrow> string option \<Rightarrow> unit m" where
  "build_v8_m e target = (build_v8 e target, [BuildV8 target])"

definition copy_file_m :: "env \<Rightarrow> string \<Rightarrow> string \<Rightarrow> unit m" where
  "copy_file_m e src dest = (copy_file e src dest, [CopyFile src dest])"

subsection \<open>The module-level helpers\<close>

text \<open>
  \<^verbatim>\<open>
  def local_path(path):
      current_path = dirname(__file__)
      return abspath(join(current_path, path))
  \<close>
\<close>

definition local_path :: "env \<Rightarrow> string \<Rightarrow> string" where
  "local_path e path =
     (let current_path = file_dir e
      in abspath e (os_path_join e current_path [path]))"

text \<open>
  \<^verbatim>\<open>
  def check_python_version():
      output = check_output(['python', '--version'], stderr=STDOUT)
      return output.strip().decode().startswith('Python 2.7')
  \<close>
\<close>

definition check_python_version :: "env \<Rightarrow> bool m" where
  "check_python_version e =
     bind_m (check_output_m e [''python'', ''--version''])
       (\<lambda>output.
          case decode e (strip output) of
            Inl x \<Rightarrow> raise_m x
          | Inr s \<Rightarrow> return_m (startswith s ''Python 2.7''))"

text \<open>
  \<^verbatim>\<open>
  def is_depot_tools_checkout():
      return isdir(local_path('vendor/depot_tools'))
  \<close>
\<close>

definition is_depot_tools_checkout :: "env \<Rightarrow> bool" where
  "is_depot_tools_checkout e = isdir e (local_path e ''vendor/depot_tools'')"

text \<open>
  \<^verbatim>\<open>
  def is_v8_built():
      files = ["libv8_base.a"]
      return all([os.path.isfile(local_path_v8(os.path.join(
          "out", "obj", "v8", f))) for f in files])
  \<close>
\<close>

definition is_v8_built :: "env \<Rightarrow> bool" where
  "is_v8_built e =
     (let files = [''libv8_base.a'']
      in list_all (\<lambda>f. isfile e (local_path_v8 e (os_path_join e ''out'' [''obj'', ''v8'', f])))
           files)"

subsection \<open>MiniRacerBuildV8.run\<close>

definition python_version_msg :: string where
  "python_version_msg =
     ''py_mini_racer cannot build V8 in the current configuration.\<newline>            The V8 build system requires the python executable to be Python 2.7.\<newline>            See also: https://github.com/sqreen/PyMiniRacer#build''"

definition depot_tools_clone :: "string list" where
  "depot_tools_clone =
     [''git'', ''clone'', ''https://chromium.googlesource.com/chromium/tools/depot_tools.git'',
      ''vendor/depot_tools'']"

text \<open>\<^verbatim>\<open>self.target or "v8"\<close>: \<^verbatim>\<open>None\<close> and the empty string are falsy.\<close>

definition target_or_v8 :: "string option \<Rightarrow> string" where
  "target_or_v8 target =
     (case target of None \<Rightarrow> ''v8'' | Some t \<Rightarrow> if t = [] then ''v8'' else t)"

text \<open>
  \<^verbatim>\<open>
  def run(self):
      if (self.target is None or self.target == "v8") and is_v8_built():
          print("v8 was already built")
          return
      if not check_python_version():
          msg = """py_mini_racer cannot build V8 ..."""
          raise Exception(msg)
      if not is_depot_tools_checkout():
          print("cloning depot tools submodule")
          check_call(['git', 'clone', '.../depot_tools.git', 'vendor/depot_tools'])
      print("building {}".format(self.target or "v8"))
      build_v8(self.target)
  \<close>
  \<open>target\<close> is \<^verbatim>\<open>self.target\<close>.
\<close>

definition run :: "env \<Rightarrow> string option \<Rightarrow> unit m" where
  "run e target =
     (if (target = None \<or> target = Some ''v8'') \<and> is_v8_built e
      then print_m ''v8 was already built''
      else
        bind_m (check_python_version e) (\<lambda>ok.
          if \<not> ok then raise_m (PyExc True ''Exception'' python_version_msg)
          else
            bind_m
              (if \<not> is_depot_tools_checkout e
               then bind_m (print_m ''cloning depot tools submodule'')
                      (\<lambda>_. check_call_m e depot_tools_clone)
               else return_m ())
              (\<lambda>_. bind_m (print_m (''building '' @ target_or_v8 target))
                      (\<lambda>_. build_v8_m e target))))"

subsection \<open>MiniRacerBuildExt.build\_extensions\<close>

definition err_msg :: string where
  "err_msg =
     ''py_mini_racer failed to build, ensure you have an up-to-date pip (>= 8.1) to use the wheel instead\<newline>            To update pip: 'pip install -U pip'\<newline>            See also: https://github.com/sqreen/PyMiniRacer#binary-builds-availability\<newline>\<newline>            Original error: %s''"

text \<open>
  The body of the \<^verbatim>\<open>try\<close>:
  \<^verbatim>\<open>
  self.debug = True
  src = os.path.join(local_path_v8("out"), self.get_filename())
  dest = os.path.join(self.build_lib, self.get_ext_filename("_v8"))
  if not os.path.isfile(src):
      self.reinitialize_command("build_v8", target="py_mini_racer_shared_lib")
      self.run_command("build_v8")
  copy_file(src, dest)
  \<close>
  \<^verbatim>\<open>cmdclass\<close> binds \<^verbatim>\<open>build_v8\<close> to \<^verbatim>\<open>MiniRacerBuildV8\<close>, so running the
  reinitialised command is \<open>run\<close> with the target given. The assignment to
  \<^verbatim>\<open>self.debug\<close> is read by nothing in the script, and what distutils logs on its own
  is not part of the trace.
\<close>

definition build_src :: "env \<Rightarrow> string" where
  "build_src e = os_path_join e (local_path_v8 e ''out'') [get_filename e]"

definition build_dest :: "env \<Rightarrow> string" where
  "build_dest e = os_path_join e (build_lib e) [get_ext_filename e ''_v8'']"

definition build_extensions_try :: "env \<Rightarrow> unit m" where
  "build_extensions_try e =
     (let src = build_src e;
          dest = build_dest e
      in bind_m
           (if \<not> isfile e src then run e (Some ''py_mini_racer_shared_lib'')
            else return_m ())
           (\<lambda>_. copy_file_m e src dest))"

text \<open>
  \<^verbatim>\<open>
  try: ...
  except Exception as e:
      traceback.print_exc()
      err_msg = """py_mini_racer failed to build, ... Original error: %s"""
      raise Exception(err_msg % repr(e))
  \<close>
  \<^verbatim>\<open>except Exception\<close> catches the instances of \<^verbatim>\<open>Exception\<close> and lets every other
  exception through.
\<close>

definition build_extensions :: "env \<Rightarrow> unit m" where
  "build_extensions e =
     (case build_extensions_try e of
        (Inr u, t) \<Rightarrow> (Inr u, t)
      | (Inl x, t) \<Rightarrow>
          if is_Exception x
          then (Inl (PyExc True ''Exception'' (format_s err_msg (repr e x))), t @ [PrintExc x])
          else (Inl x, t))"

subsection \<open>A concrete environment\<close>

text \<open>
  A posix machine with the repository at \<^verbatim>\<open>/repo\<close>, used to run the definitions on
  concrete inputs: \<open>files\<close> are the regular files that exist, \<open>version\<close> is what
  \<^verbatim>\<open>python --version\<close> prints, \<open>built\<close> and \<open>copied\<close> are what \<^verbatim>\<open>build_v8\<close>
  and \<^verbatim>\<open>copy_file\<close> do. There is no \<^verbatim>\<open>vendor/depot_tools\<close> directory, and cloning
  succeeds.
\<close>

definition example_env ::
  "string \<Rightarrow> string list \<Rightarrow> string \<Rightarrow> exn + unit \<Rightarrow> exn + unit \<Rightarrow> env" where
  "example_env plat files version built copied =
     \<lparr>os_name = ''posix'', sys_platform = plat, os_path_join = posixpath_join,
      file_dir = ''/repo'', abspath = (\<lambda>p. p),
      isfile = (\<lambda>p. p \<in> set files), isdir = (\<lambda>p. False),
      local_path_v8 = (\<lambda>p. posixpath_join ''/repo/v8'' [p]),
      check_output = (\<lambda>args. Inr version), decode = Inr,
      check_call = (\<lambda>args. Inr ()), build_v8 = (\<lambda>target. built),
      copy_file = (\<lambda>src dest. copied), build_lib = ''build/lib'',
      repr = (\<lambda>x. exn_class x @ ''('' @ exn_msg x @ '')'')\<rparr>"

section \<open>Properties\<close>

subsection \<open>Splitting and joining\<close>

lemma split_from_nonempty: "split_from c cur s \<noteq> []"
  by (induction s arbitrary: cur) auto

lemma split_on_nonempty: "split_on c s \<noteq> []"
  by (simp add: split_on_def split_from_nonempty)

lemma split_on_snoc: "butlast (split_on c s) @ [last (split_on c s)] = split_on c s"
  by (simp add: split_on_nonempty)

lemma split_from_subset: "p \<in> set (split_from c cur s) \<Longrightarrow> set p \<subseteq> set cur \<union> set s"
proof (induction s arbitrary: cur)
  case Nil
  then show ?case by simp
next
  case (Cons x xs)
  show ?case
  proof (cases "x = c")
    case True
    with Cons.prems have "p = cur \<or> p \<in> set (split_from c [] xs)" by simp
    with Cons.IH [of "[]"] show ?thesis by auto
  next
    case False
    with Cons.prems have "p \<in> set (split_from c (cur @ [x]) xs)" by simp
    from Cons.IH [OF this] show ?thesis by auto
  qed
qed

lemma split_on_subset: "p \<in> set (split_on c s) \<Longrightarrow> set p \<subseteq> set s"
  using split_from_subset [of p c "[]" s] by (simp add: split_on_def)

lemma split_from_no_sep:
  "c \<notin> set cur \<Longrightarrow> p \<in> set (split_from c cur s) \<Longrightarrow> c \<notin> set p"
proof (induction s arbitrary: cur)
  case Nil
  then show ?case by simp
next
  case (Cons x xs)
  show ?case
  proof (cases "x = c")
    case True
    with Cons.prems have "p = cur \<or> p \<in> set (split_from c [] xs)" by simp
    with Cons.IH [of "[]"] Cons.prems(1) show ?thesis by auto
  next
    case False
    with Cons.prems have "p \<in> set (split_from c (cur @ [x]) xs)" by simp
    moreover from False Cons.prems(1) have "c \<notin> set (cur @ [x])" by simp
    ultimately show ?thesis by (rule Cons.IH [rotated])
  qed
qed

lemma split_on_no_sep: "p \<in> set (split_on c s) \<Longrightarrow> c \<notin> set p"
  using split_from_no_sep [of c "[]" p s] by (simp add: split_on_def)

lemma str_join_cons: "r \<noteq> [] \<Longrightarrow> str_join sep (a # r) = a @ sep @ str_join sep r"
  by (cases r) auto

lemma str_join_split_from: "str_join [c] (split_from c cur s) = cur @ s"
  by (induction s arbitrary: cur) (simp_all add: str_join_cons split_from_nonempty)

text \<open>Joining the pieces with the separator gives the string back.\<close>

lemma str_join_split_on: "str_join [c] (split_on c s) = s"
  by (simp add: split_on_def str_join_split_from)

lemma str_join_slash_split_from:
  "str_join ''/'' (split_from CHR ''.'' cur s) =
     cur @ map (\<lambda>c. if c = CHR ''.'' then CHR ''/'' else c) s"
  by (induction s arbitrary: cur) (simp_all add: str_join_cons split_from_nonempty)

lemma str_join_slash_split:
  "str_join ''/'' (split_on CHR ''.'' s) = map (\<lambda>c. if c = CHR ''.'' then CHR ''/'' else c) s"
  by (simp add: split_on_def str_join_slash_split_from)

lemma str_join_snoc_append: "str_join sep (xs @ [l @ e]) = str_join sep (xs @ [l]) @ e"
  by (induction sep xs rule: str_join.induct) auto

lemma startswith_slash: "startswith b ''/'' \<longleftrightarrow> b \<noteq> [] \<and> hd b = CHR ''/''"
  by (cases b) (auto simp: startswith_def)

lemma endswith_slash: "endswith s ''/'' \<longleftrightarrow> s \<noteq> [] \<and> last s = CHR ''/''"
proof (cases s rule: rev_cases)
  case Nil
  then show ?thesis by (simp add: endswith_def)
next
  case (snoc ys y)
  then show ?thesis by (auto simp: endswith_def)
qed

text \<open>
  On components that are non-empty and hold no slash, \<^verbatim>\<open>posixpath.join\<close> puts one
  slash between neighbours.
\<close>

lemma posixpath_join_plain:
  assumes "a \<noteq> []" and "CHR ''/'' \<notin> set a"
    and "\<forall>b \<in> set p. b \<noteq> [] \<and> CHR ''/'' \<notin> set b"
  shows "posixpath_join a p = str_join ''/'' (a # p)"
proof -
  have "a \<noteq> [] \<Longrightarrow> last a \<noteq> CHR ''/'' \<Longrightarrow> \<forall>b \<in> set p. b \<noteq> [] \<and> CHR ''/'' \<notin> set b \<Longrightarrow>
        fold posixpath_join_step p a = a @ concat (map (\<lambda>b. ''/'' @ b) p)"
  proof (induction p arbitrary: a)
    case Nil
    then show ?case by simp
  next
    case (Cons b p)
    from Cons.prems have b: "b \<noteq> []" "CHR ''/'' \<notin> set b" by auto
    then have hd: "hd b \<noteq> CHR ''/''" and lst: "last b \<noteq> CHR ''/''"
      by (metis hd_in_set, metis last_in_set)
    have step: "posixpath_join_step b a = a @ ''/'' @ b"
      using Cons.prems(1,2) b hd
      by (simp add: posixpath_join_step_def startswith_slash endswith_slash)
    have "fold posixpath_join_step p (a @ ''/'' @ b) =
          (a @ ''/'' @ b) @ concat (map (\<lambda>b. ''/'' @ b) p)"
      using Cons.prems b lst by (intro Cons.IH) auto
    with step show ?case by simp
  qed
  moreover have "last a \<noteq> CHR ''/''" using assms(1,2) by (metis last_in_set)
  moreover have "str_join ''/'' (a # p) = a @ concat (map (\<lambda>b. ''/'' @ b) p)"
    by (induction p arbitrary: a) auto
  ultimately show ?thesis using assms by (simp add: posixpath_join_def)
qed

subsection \<open>The engine library's file name\<close>

text \<open>
  C1. The engine shared-library filename is a function of the platform alone: on a posix
  system whose platform is darwin it is libmini\_racer.dylib, on win32 it is
  mini\_racer.dll, and on every other platform it is libmini\_racer.so.
\<close>

theorem get_filename_by_platform:
  "get_filename P =
     (if os_name P = ''posix'' \<and> sys_platform P = ''darwin'' then ''libmini_racer.dylib''
      else if sys_platform P = ''win32'' then ''mini_racer.dll''
      else ''libmini_racer.so'')"
  by (simp add: get_filename_def)

theorem get_filename_by_platform_witness:
  "get_filename (example_env ''darwin'' [] [] (Inr ()) (Inr ())) = ''libmini_racer.dylib'' \<and>
   get_filename (example_env ''win32'' [] [] (Inr ()) (Inr ())) = ''mini_racer.dll'' \<and>
   get_filename (example_env ''linux'' [] [] (Inr ()) (Inr ())) = ''libmini_racer.so''"
  using get_filename_by_platform [of "example_env ''darwin'' [] [] (Inr ()) (Inr ())"]
    get_filename_by_platform [of "example_env ''win32'' [] [] (Inr ()) (Inr ())"]
    get_filename_by_platform [of "example_env ''linux'' [] [] (Inr ()) (Inr ())"]
  by (simp add: example_env_def)

subsection \<open>The extension module's file name\<close>

text \<open>
  On posix, a dotted name with no slash and no empty part before the last becomes the
  path with a slash for every dot, and \<^verbatim>\<open>.so\<close> at the end.
\<close>

lemma get_ext_filename_posix:
  assumes join: "os_path_join P = posixpath_join"
    and slash: "CHR ''/'' \<notin> set name"
    and nonempty: "[] \<notin> set (butlast (split_on CHR ''.'' name))"
  shows "get_ext_filename P name =
           map (\<lambda>c. if c = CHR ''.'' then CHR ''/'' else c) name @ ''.so''"
proof -
  let ?ps = "split_on CHR ''.'' name"
  let ?cs = "butlast ?ps @ [last ?ps @ ''.so'']"
  have noslash: "CHR ''/'' \<notin> set p" if "p \<in> set ?ps" for p
    using split_on_subset [OF that] slash by auto
  have parts: "\<forall>b \<in> set ?cs. b \<noteq> [] \<and> CHR ''/'' \<notin> set b"
  proof
    fix b assume "b \<in> set ?cs"
    then consider "b \<in> set (butlast ?ps)" | "b = last ?ps @ ''.so''" by auto
    then show "b \<noteq> [] \<and> CHR ''/'' \<notin> set b"
    proof cases
      case 1
      then have "b \<in> set ?ps" by (rule in_set_butlastD)
      with 1 nonempty noslash show ?thesis by auto
    next
      case 2
      have "last ?ps \<in> set ?ps" by (simp add: split_on_nonempty)
      with 2 noslash show ?thesis by auto
    qed
  qed
  have cs: "?cs = hd ?cs # tl ?cs" by simp
  have "get_ext_filename P name = posixpath_join (hd ?cs) (tl ?cs)"
    by (simp add: get_ext_filename_def os_path_join_star_def join Let_def)
  also have "\<dots> = str_join ''/'' (hd ?cs # tl ?cs)"
  proof (rule posixpath_join_plain)
    show "hd ?cs \<noteq> []" "CHR ''/'' \<notin> set (hd ?cs)"
      using parts by (metis cs list.set_intros(1))+
    show "\<forall>b \<in> set (tl ?cs). b \<noteq> [] \<and> CHR ''/'' \<notin> set b"
      using parts by (metis cs list.set_intros(2))
  qed
  also have "\<dots> = str_join ''/'' ?cs" by simp
  also have "\<dots> = str_join ''/'' (butlast ?ps @ [last ?ps]) @ ''.so''"
    by (rule str_join_snoc_append)
  also have "\<dots> = map (\<lambda>c. if c = CHR ''.'' then CHR ''/'' else c) name @ ''.so''"
    unfolding split_on_snoc by (simp add: str_join_slash_split)
  finally show ?thesis .
qed

text \<open>
  C8. For every dotted extension name and on every platform, the destination file name
  is \<^verbatim>\<open>os.path.join\<close> of the dot-separated parts of the name, with the literal
  suffix \<^verbatim>\<open>.so\<close> appended to the last part: the parts hold no dot and give the name
  back when joined with dots. Neither \<^verbatim>\<open>os.name\<close> nor \<^verbatim>\<open>sys.platform\<close> changes
  the suffix, also where the library's own suffix is \<^verbatim>\<open>.dll\<close> or \<^verbatim>\<open>.dylib\<close>.
\<close>

theorem get_ext_filename_parts:
  "\<exists>parts lst.
     str_join ''.'' (parts @ [lst]) = name \<and>
     (\<forall>p \<in> set (parts @ [lst]). CHR ''.'' \<notin> set p) \<and>
     get_ext_filename P name = os_path_join_star P (parts @ [lst @ ''.so''])"
proof (intro exI conjI)
  let ?ps = "split_on CHR ''.'' name"
  show "str_join ''.'' (butlast ?ps @ [last ?ps]) = name"
    unfolding split_on_snoc by (rule str_join_split_on)
  show "\<forall>p \<in> set (butlast ?ps @ [last ?ps]). CHR ''.'' \<notin> set p"
    unfolding split_on_snoc by (blast dest: split_on_no_sep)
  show "get_ext_filename P name = os_path_join_star P (butlast ?ps @ [last ?ps @ ''.so''])"
    by (simp add: get_ext_filename_def Let_def)
qed

theorem get_ext_filename_parts_witness:
  "(\<exists>parts lst.
      str_join ''.'' (parts @ [lst]) = ''py_mini_racer._v8'' \<and>
      (\<forall>p \<in> set (parts @ [lst]). CHR ''.'' \<notin> set p) \<and>
      get_ext_filename (example_env ''darwin'' [] [] (Inr ()) (Inr ())) ''py_mini_racer._v8'' =
        os_path_join_star (example_env ''darwin'' [] [] (Inr ()) (Inr ())) (parts @ [lst @ ''.so''])) \<and>
   str_join ''.'' ([''py_mini_racer''] @ [''_v8'']) = ''py_mini_racer._v8'' \<and>
   CHR ''.'' \<notin> set ''py_mini_racer'' \<and> CHR ''.'' \<notin> set ''_v8'' \<and>
   os_path_join_star (example_env ''darwin'' [] [] (Inr ()) (Inr ())) ([''py_mini_racer''] @ [''_v8'' @ ''.so''])
     = ''py_mini_racer/_v8.so'' \<and>
   get_ext_filename (example_env ''darwin'' [] [] (Inr ()) (Inr ())) ''py_mini_racer._v8'' =
     ''py_mini_racer/_v8.so'' \<and>
   get_filename (example_env ''darwin'' [] [] (Inr ()) (Inr ())) = ''libmini_racer.dylib''"
  using get_ext_filename_parts [of "''py_mini_racer._v8''" "example_env ''darwin'' [] [] (Inr ()) (Inr ())"]
  by (simp add: get_ext_filename_def get_filename_def example_env_def os_path_join_star_def
      posixpath_join_def posixpath_join_step_def startswith_def endswith_def split_on_def)

subsection \<open>The build\_v8 command\<close>

lemma is_v8_built_file:
  "is_v8_built e =
     isfile e (local_path_v8 e (os_path_join e ''out'' [''obj'', ''v8'', ''libv8_base.a'']))"
  by (simp add: is_v8_built_def)

lemma check_python_version_cases:
  "check_python_version e =
     (case check_output e [''python'', ''--version''] of
        Inl x \<Rightarrow> (Inl x, [CheckOutput [''python'', ''--version'']])
      | Inr out \<Rightarrow>
          (case decode e (strip out) of
             Inl x \<Rightarrow> (Inl x, [CheckOutput [''python'', ''--version'']])
           | Inr s \<Rightarrow> (Inr (startswith s ''Python 2.7''), [CheckOutput [''python'', ''--version'']])))"
  by (simp add: check_python_version_def check_output_m_def bind_m_def raise_m_def return_m_def
      split: sum.splits)

lemma run_skip:
  assumes "target = None \<or> target = Some ''v8''" and "is_v8_built e"
  shows "run e target = (Inr (), [Print ''v8 was already built''])"
  using assms by (auto simp: run_def print_m_def)

lemma run_wrong_python:
  assumes "\<not> ((target = None \<or> target = Some ''v8'') \<and> is_v8_built e)"
    and "check_output e [''python'', ''--version''] = Inr out"
    and "decode e (strip out) = Inr s"
    and "\<not> startswith s ''Python 2.7''"
  shows "run e target =
           (Inl (PyExc True ''Exception'' python_version_msg),
            [CheckOutput [''python'', ''--version'']])"
  using assms by (auto simp: run_def check_python_version_cases bind_m_def raise_m_def)

lemma run_build_needs_python:
  assumes "\<not> ((target = None \<or> target = Some ''v8'') \<and> is_v8_built e)"
    and "fst (run e target) = Inr () \<or> BuildV8 t \<in> set (snd (run e target))
         \<or> CheckCall a \<in> set (snd (run e target))"
  shows "\<exists>out s. check_output e [''python'', ''--version''] = Inr out \<and>
           decode e (strip out) = Inr s \<and> startswith s ''Python 2.7''"
  using assms
  by (auto simp: run_def check_python_version_cases bind_m_def raise_m_def return_m_def
        print_m_def check_call_m_def build_v8_m_def
      split: sum.splits if_splits prod.splits)

lemma run_checks_python_first:
  assumes "\<not> ((target = None \<or> target = Some ''v8'') \<and> is_v8_built e)"
  shows "\<exists>t. snd (run e target) = CheckOutput [''python'', ''--version''] # t"
  using assms
  by (auto simp: run_def check_python_version_cases bind_m_def raise_m_def return_m_def
        print_m_def check_call_m_def build_v8_m_def
      split: sum.splits if_splits prod.splits)

text \<open>
  C9. A completed default build is left alone: when the target is \<^verbatim>\<open>None\<close> or
  \<^verbatim>\<open>v8\<close> and \<^verbatim>\<open>libv8_base.a\<close> exists under \<^verbatim>\<open>out/obj/v8\<close> of the local V8 path,
  \<open>run\<close> prints one line and returns: no version check, no clone, no build. Otherwise
  the first thing it does is run \<^verbatim>\<open>python --version\<close>; it succeeds, clones or builds
  only if the output, stripped and decoded, starts with \<^verbatim>\<open>Python 2.7\<close>, and raises an
  \<^verbatim>\<open>Exception\<close> with the configuration message, having done nothing else, when
  the output is something else.
\<close>

theorem run_skips_completed_build_else_requires_python_2_7:
  "((target = None \<or> target = Some ''v8'') \<and>
    isfile e (local_path_v8 e (os_path_join e ''out'' [''obj'', ''v8'', ''libv8_base.a'']))
    \<longrightarrow> run e target = (Inr (), [Print ''v8 was already built''])) \<and>
   (\<not> ((target = None \<or> target = Some ''v8'') \<and>
       isfile e (local_path_v8 e (os_path_join e ''out'' [''obj'', ''v8'', ''libv8_base.a'']))) \<longrightarrow>
      (\<exists>t. snd (run e target) = CheckOutput [''python'', ''--version''] # t) \<and>
      (fst (run e target) = Inr () \<or> BuildV8 tg \<in> set (snd (run e target)) \<or>
       CheckCall args \<in> set (snd (run e target)) \<longrightarrow>
         (\<exists>out s. check_output e [''python'', ''--version''] = Inr out \<and>
            decode e (strip out) = Inr s \<and> startswith s ''Python 2.7'')) \<and>
      (check_output e [''python'', ''--version''] = Inr out \<and> decode e (strip out) = Inr s \<and>
       \<not> startswith s ''Python 2.7'' \<longrightarrow>
         run e target =
           (Inl (PyExc True ''Exception'' python_version_msg),
            [CheckOutput [''python'', ''--version'']])))"
  unfolding is_v8_built_file [symmetric]
  using run_skip [of target e] run_checks_python_first [of target e]
    run_build_needs_python [of target e tg args] run_wrong_python [of target e out s]
  by blast

theorem run_skips_completed_build_else_requires_python_2_7_witness:
  "isfile (example_env ''linux'' [''/repo/v8/out/obj/v8/libv8_base.a''] ''Python 3.6.9\<newline>'' (Inr ()) (Inr ()))
     (local_path_v8 (example_env ''linux'' [''/repo/v8/out/obj/v8/libv8_base.a''] ''Python 3.6.9\<newline>'' (Inr ()) (Inr ()))
        (os_path_join (example_env ''linux'' [''/repo/v8/out/obj/v8/libv8_base.a''] ''Python 3.6.9\<newline>'' (Inr ()) (Inr ()))
           ''out'' [''obj'', ''v8'', ''libv8_base.a''])) \<and>
   run (example_env ''linux'' [''/repo/v8/out/obj/v8/libv8_base.a''] ''Python 3.6.9\<newline>'' (Inr ()) (Inr ())) None
     = (Inr (), [Print ''v8 was already built'']) \<and>
   \<not> isfile (example_env ''linux'' [] ''Python 3.6.9\<newline>'' (Inr ()) (Inr ()))
     (local_path_v8 (example_env ''linux'' [] ''Python 3.6.9\<newline>'' (Inr ()) (Inr ()))
        (os_path_join (example_env ''linux'' [] ''Python 3.6.9\<newline>'' (Inr ()) (Inr ()))
           ''out'' [''obj'', ''v8'', ''libv8_base.a''])) \<and>
   check_output (example_env ''linux'' [] ''Python 3.6.9\<newline>'' (Inr ()) (Inr ())) [''python'', ''--version'']
     = Inr ''Python 3.6.9\<newline>'' \<and>
   decode (example_env ''linux'' [] ''Python 3.6.9\<newline>'' (Inr ()) (Inr ())) (strip ''Python 3.6.9\<newline>'')
     = Inr ''Python 3.6.9'' \<and>
   \<not> startswith ''Python 3.6.9'' ''Python 2.7'' \<and>
   run (example_env ''linux'' [] ''Python 3.6.9\<newline>'' (Inr ()) (Inr ())) None
     = (Inl (PyExc True ''Exception'' python_version_msg), [CheckOutput [''python'', ''--version'']])"
proof -
  let ?built = "example_env ''linux'' [''/repo/v8/out/obj/v8/libv8_base.a''] ''Python 3.6.9\<newline>'' (Inr ()) (Inr ())"
  let ?fresh = "example_env ''linux'' [] ''Python 3.6.9\<newline>'' (Inr ()) (Inr ())"
  have built: "isfile ?built (local_path_v8 ?built
      (os_path_join ?built ''out'' [''obj'', ''v8'', ''libv8_base.a'']))"
    by (simp add: example_env_def posixpath_join_def posixpath_join_step_def
        startswith_def endswith_def)
  have fresh: "\<not> isfile ?fresh (local_path_v8 ?fresh
      (os_path_join ?fresh ''out'' [''obj'', ''v8'', ''libv8_base.a'']))"
    by (simp add: example_env_def)
  have out: "check_output ?fresh [''python'', ''--version''] = Inr ''Python 3.6.9\<newline>''"
    by (simp add: example_env_def)
  have dec: "decode ?fresh (strip ''Python 3.6.9\<newline>'') = Inr ''Python 3.6.9''"
    by (simp add: example_env_def strip_def is_space_def)
  have ver: "\<not> startswith ''Python 3.6.9'' ''Python 2.7''"
    by (simp add: startswith_def)
  from run_skips_completed_build_else_requires_python_2_7 [of None ?built] built
  have "run ?built None = (Inr (), [Print ''v8 was already built''])"
    by blast
  moreover
  from run_skips_completed_build_else_requires_python_2_7
    [of None ?fresh _ _ "''Python 3.6.9\<newline>''" "''Python 3.6.9''"] fresh out dec ver
  have "run ?fresh None =
      (Inl (PyExc True ''Exception'' python_version_msg), [CheckOutput [''python'', ''--version'']])"
    by blast
  ultimately show ?thesis using built fresh out dec ver by blast
qed

text \<open>The four ways through \<open>run\<close>, on the concrete environment.\<close>

lemma run_examples:
  "run (example_env ''linux'' [''/repo/v8/out/obj/v8/libv8_base.a''] ''Python 3.6.9\<newline>'' (Inr ()) (Inr ())) None
     = (Inr (), [Print ''v8 was already built''])"
  "run (example_env ''linux'' [] ''Python 3.6.9\<newline>'' (Inr ()) (Inr ())) None
     = (Inl (PyExc True ''Exception'' python_version_msg), [CheckOutput [''python'', ''--version'']])"
  "run (example_env ''linux'' [] ''Python 2.7.18\<newline>'' (Inr ()) (Inr ())) None
     = (Inr (), [CheckOutput [''python'', ''--version''], Print ''cloning depot tools submodule'',
                 CheckCall depot_tools_clone, Print ''building v8'', BuildV8 None])"
  "run (example_env ''linux'' [''/repo/v8/out/obj/v8/libv8_base.a''] ''Python 2.7.18\<newline>'' (Inr ()) (Inr ()))
       (Some ''py_mini_racer_shared_lib'')
     = (Inr (), [CheckOutput [''python'', ''--version''], Print ''cloning depot tools submodule'',
                 CheckCall depot_tools_clone, Print ''building py_mini_racer_shared_lib'',
                 BuildV8 (Some ''py_mini_racer_shared_lib'')])"
  by (simp_all add: run_def is_v8_built_def example_env_def posixpath_join_def
      posixpath_join_step_def startswith_def endswith_def check_python_version_cases
      strip_def is_space_def bind_m_def raise_m_def return_m_def print_m_def
      is_depot_tools_checkout_def local_path_def check_call_m_def build_v8_m_def target_or_v8_def)

subsection \<open>build\_extensions\<close>

lemma format_s_percent_s:
  "CHR ''%'' \<notin> set g \<Longrightarrow> format_s (g @ ''%s'') a = g @ a"
proof (induction g)
  case Nil
  then show ?case by simp
next
  case (Cons c g)
  then have "format_s (g @ ''%s'') a = g @ a" by simp
  moreover obtain d ds where "g @ ''%s'' = d # ds" by (cases g) auto
  ultimately show ?case using Cons.prems by auto
qed

lemma err_msg_split: "err_msg = butlast (butlast err_msg) @ ''%s''"
  by (simp add: err_msg_def)

lemma err_msg_no_percent: "CHR ''%'' \<notin> set (butlast (butlast err_msg))"
  by (simp add: err_msg_def)

lemma format_err_msg: "format_s err_msg r = butlast (butlast err_msg) @ r"
  using format_s_percent_s [OF err_msg_no_percent, of r] err_msg_split by simp

lemma try_run_fails:
  assumes "\<not> isfile e (build_src e)"
    and "fst (run e (Some ''py_mini_racer_shared_lib'')) = Inl x"
  shows "fst (build_extensions_try e) = Inl x"
  using assms
  by (cases "run e (Some ''py_mini_racer_shared_lib'')")
     (simp add: build_extensions_try_def bind_m_def Let_def)

lemma try_copy_fails:
  assumes "isfile e (build_src e) \<or> fst (run e (Some ''py_mini_racer_shared_lib'')) = Inr ()"
    and "copy_file e (build_src e) (build_dest e) = Inl x"
  shows "fst (build_extensions_try e) = Inl x"
  using assms
  by (cases "run e (Some ''py_mini_racer_shared_lib'')")
     (auto simp: build_extensions_try_def bind_m_def Let_def return_m_def copy_file_m_def)

lemma build_extensions_caught:
  assumes "fst (build_extensions_try e) = Inl x" and "is_Exception x"
  shows "build_extensions e =
           (Inl (PyExc True ''Exception'' (butlast (butlast err_msg) @ repr e x)),
            snd (build_extensions_try e) @ [PrintExc x])"
  using assms
  by (cases "build_extensions_try e") (simp add: build_extensions_def format_err_msg)

lemma build_extensions_not_caught:
  assumes "fst (build_extensions_try e) = Inl x" and "\<not> is_Exception x"
  shows "build_extensions e = build_extensions_try e"
  using assms
  by (cases "build_extensions_try e") (simp add: build_extensions_def)

lemma build_extensions_success:
  assumes "fst (build_extensions_try e) = Inr u"
  shows "build_extensions e = build_extensions_try e"
  using assms
  by (cases "build_extensions_try e") (simp add: build_extensions_def)

text \<open>Nothing in the body of the \<^verbatim>\<open>try\<close> prints a traceback.\<close>

lemma run_no_print_exc: "PrintExc y \<notin> set (snd (run e target))"
  by (auto simp: run_def check_python_version_cases bind_m_def raise_m_def return_m_def
        print_m_def check_call_m_def build_v8_m_def
      split: sum.splits if_splits prod.splits)

lemma try_no_print_exc: "PrintExc y \<notin> set (snd (build_extensions_try e))"
  using run_no_print_exc [of y e "Some ''py_mini_racer_shared_lib''"]
  by (cases "run e (Some ''py_mini_racer_shared_lib'')")
     (auto simp: build_extensions_try_def bind_m_def Let_def return_m_def copy_file_m_def
      split: sum.splits)

text \<open>
  C10, as the code has it. Whenever a step of building the extension (the V8 build that a
  missing source library triggers, or the final copy) raises an exception that is an
  instance of \<^verbatim>\<open>Exception\<close>, \<open>build_extensions\<close> prints the traceback and raises a new
  \<^verbatim>\<open>Exception\<close> whose message is the pip-upgrade guidance text followed by the repr of
  the original error. An exception that is not an instance of \<^verbatim>\<open>Exception\<close>
  (\<^verbatim>\<open>KeyboardInterrupt\<close>, \<^verbatim>\<open>SystemExit\<close>) is not caught: it leaves \<open>build_extensions\<close>
  as it was raised, and no traceback is printed.
\<close>

theorem build_extensions_wraps_Exception:
  assumes "(\<not> isfile e (build_src e) \<and> fst (run e (Some ''py_mini_racer_shared_lib'')) = Inl x) \<or>
           ((isfile e (build_src e) \<or> fst (run e (Some ''py_mini_racer_shared_lib'')) = Inr ()) \<and>
            copy_file e (build_src e) (build_dest e) = Inl x)"
  shows "(is_Exception x \<longrightarrow>
            (\<exists>guidance t.
               err_msg = guidance @ ''%s'' \<and>
               build_extensions e =
                 (Inl (PyExc True ''Exception'' (guidance @ repr e x)), t @ [PrintExc x]))) \<and>
         (\<not> is_Exception x \<longrightarrow>
            fst (build_extensions e) = Inl x \<and> PrintExc x \<notin> set (snd (build_extensions e)))"
proof -
  from assms have failed: "fst (build_extensions_try e) = Inl x"
    by (auto simp: try_run_fails try_copy_fails)
  show ?thesis
  proof (intro conjI impI)
    assume "is_Exception x"
    from build_extensions_caught [OF failed this] err_msg_split
    show "\<exists>guidance t.
            err_msg = guidance @ ''%s'' \<and>
            build_extensions e =
              (Inl (PyExc True ''Exception'' (guidance @ repr e x)), t @ [PrintExc x])"
      by blast
  next
    assume "\<not> is_Exception x"
    from build_extensions_not_caught [OF failed this]
    have same: "build_extensions e = build_extensions_try e" .
    with failed show "fst (build_extensions e) = Inl x" by simp
    from same try_no_print_exc [of x e]
    show "PrintExc x \<notin> set (snd (build_extensions e))" by simp
  qed
qed

theorem build_extensions_wraps_Exception_witness:
  "isfile
     (example_env ''linux'' [''/repo/v8/out/libmini_racer.so''] ''Python 2.7.18'' (Inr ())
        (Inl (PyExc True ''DistutilsFileError'' ''could not copy'')))
     (build_src
        (example_env ''linux'' [''/repo/v8/out/libmini_racer.so''] ''Python 2.7.18'' (Inr ())
           (Inl (PyExc True ''DistutilsFileError'' ''could not copy'')))) \<and>
   copy_file
     (example_env ''linux'' [''/repo/v8/out/libmini_racer.so''] ''Python 2.7.18'' (Inr ())
        (Inl (PyExc True ''DistutilsFileError'' ''could not copy'')))
     (build_src
        (example_env ''linux'' [''/repo/v8/out/libmini_racer.so''] ''Python 2.7.18'' (Inr ())
           (Inl (PyExc True ''DistutilsFileError'' ''could not copy''))))
     (build_dest
        (example_env ''linux'' [''/repo/v8/out/libmini_racer.so''] ''Python 2.7.18'' (Inr ())
           (Inl (PyExc True ''DistutilsFileError'' ''could not copy''))))
     = Inl (PyExc True ''DistutilsFileError'' ''could not copy'') \<and>
   is_Exception (PyExc True ''DistutilsFileError'' ''could not copy'') \<and>
   fst (build_extensions
          (example_env ''linux'' [''/repo/v8/out/libmini_racer.so''] ''Python 2.7.18'' (Inr ())
             (Inl (PyExc True ''DistutilsFileError'' ''could not copy''))))
     = Inl (PyExc True ''Exception''
              (butlast (butlast err_msg) @ ''DistutilsFileError(could not copy)'')) \<and>
   last (snd (build_extensions
          (example_env ''linux'' [''/repo/v8/out/libmini_racer.so''] ''Python 2.7.18'' (Inr ())
             (Inl (PyExc True ''DistutilsFileError'' ''could not copy'')))))
     = PrintExc (PyExc True ''DistutilsFileError'' ''could not copy'')"
proof -
  let ?x = "PyExc True ''DistutilsFileError'' ''could not copy''"
  let ?e = "example_env ''linux'' [''/repo/v8/out/libmini_racer.so''] ''Python 2.7.18'' (Inr ()) (Inl ?x)"
  have src: "isfile ?e (build_src ?e)"
    by (simp add: build_src_def get_filename_def example_env_def posixpath_join_def
        posixpath_join_step_def startswith_def endswith_def)
  have copy: "copy_file ?e (build_src ?e) (build_dest ?e) = Inl ?x"
    by (simp add: example_env_def)
  have exc: "is_Exception ?x" by simp
  have rep: "repr ?e ?x = ''DistutilsFileError(could not copy)''"
    by (simp add: example_env_def)
  from build_extensions_wraps_Exception [of ?e ?x] src copy exc
  obtain guidance t where g: "err_msg = guidance @ ''%s''"
    and b: "build_extensions ?e = (Inl (PyExc True ''Exception'' (guidance @ repr ?e ?x)), t @ [PrintExc ?x])"
    by blast
  have "butlast (butlast (guidance @ ''%s'')) = guidance"
    by (simp add: butlast_append)
  with g have "guidance = butlast (butlast err_msg)" by (simp only:)
  with b rep have "fst (build_extensions ?e) =
      Inl (PyExc True ''Exception'' (butlast (butlast err_msg) @ ''DistutilsFileError(could not copy)''))"
    and "last (snd (build_extensions ?e)) = PrintExc ?x"
    by simp_all
  with src copy exc show ?thesis by blast
qed

text \<open>
  C10, as the claim has it, fails: the source library is missing, the V8 build starts
  and is interrupted from the keyboard. \<^verbatim>\<open>KeyboardInterrupt\<close> is not an
  \<^verbatim>\<open>Exception\<close>, so the handler does not run: the build step has failed and its
  exception propagates unchanged, with no traceback printed.
\<close>

theorem build_extensions_interrupt_counterexample:
  "build_v8
     (example_env ''linux'' [] ''Python 2.7.18\<newline>''
        (Inl (PyExc False ''KeyboardInterrupt'' [])) (Inr ()))
     (Some ''py_mini_racer_shared_lib'')
     = Inl (PyExc False ''KeyboardInterrupt'' []) \<and>
   build_extensions
     (example_env ''linux'' [] ''Python 2.7.18\<newline>''
        (Inl (PyExc False ''KeyboardInterrupt'' [])) (Inr ()))
     = (Inl (PyExc False ''KeyboardInterrupt'' []),
        [CheckOutput [''python'', ''--version''], Print ''cloning depot tools submodule'',
         CheckCall depot_tools_clone, Print ''building py_mini_racer_shared_lib'',
         BuildV8 (Some ''py_mini_racer_shared_lib'')])"
  by (simp add: build_extensions_def build_extensions_try_def build_src_def
      get_filename_def example_env_def posixpath_join_def posixpath_join_step_def
      startswith_def endswith_def bind_m_def return_m_def raise_m_def print_m_def
      run_def check_python_version_cases strip_def is_space_def is_depot_tools_checkout_def
      local_path_def check_call_m_def build_v8_m_def target_or_v8_def)

end
